theory Spec2Isabelle
  imports Main
begin

section \<open>Values, rows and exceptions\<close>

text \<open>
  A \<^verbatim>\<open>datetime.date\<close> object. Objects of this type only come out of \<open>date_new\<close> below
  (the constructor \<^verbatim>\<open>date(year, month, day)\<close>) or out of the database driver.
\<close>

datatype pydate = Date (d_year: int) (d_month: int) (d_day: int)

text \<open>
  The Python values a \<^verbatim>\<open>DictCursor\<close> row holds for the columns the service reads:
  \<^verbatim>\<open>None\<close>, \<^verbatim>\<open>int\<close>, \<^verbatim>\<open>str\<close> and \<^verbatim>\<open>datetime.date\<close>.
  A row is a \<^verbatim>\<open>dict[str, Any]\<close>, written as an association list; \<^verbatim>\<open>row[k]\<close> and
  \<^verbatim>\<open>row.get(k)\<close> read it through \<open>map_of\<close>.
\<close>

datatype cell = CNull | CInt int | CStr string | CDate pydate

type_synonym row = "(string \<times> cell) list"

text \<open>
  Exceptions, each with what \<^verbatim>\<open>str(e)\<close> needs. \<open>DbError\<close> is whatever the database driver
  raises (connecting, executing, rolling back) with its text. \<open>ValidationError n t\<close> is
  pydantic's error for model \<open>t\<close> with \<open>n\<close> rejected fields; of its report only the first
  line is kept.
\<close>

datatype exn = DbError string | KeyError string | ValidationError nat string

section \<open>Decimal printing and dates\<close>

definition digit_char :: "nat \<Rightarrow> char" where
  "digit_char n = ''0123456789'' ! (n mod 10)"

fun str_nat :: "nat \<Rightarrow> string" where
  "str_nat n = (if n < 10 then [digit_char n] else str_nat (n div 10) @ [digit_char n])"

declare str_nat.simps [simp del]

definition str_int :: "int \<Rightarrow> string" where
  "str_int i = (if i < 0 then CHR ''-'' # str_nat (nat (- i)) else str_nat (nat i))"

definition zfill :: "nat \<Rightarrow> string \<Rightarrow> string" where
  "zfill w s = replicate (w - length s) CHR ''0'' @ s"

fun str_exn :: "exn \<Rightarrow> string" where
  "str_exn (DbError m) = m"
| "str_exn (KeyError k) = [CHR 0x27] @ k @ [CHR 0x27]"
| "str_exn (ValidationError n t) =
     str_nat n @ (if n = 1 then '' validation error for '' else '' validation errors for '') @ t"

definition is_leap :: "int \<Rightarrow> bool" where
  "is_leap y = (y mod 4 = 0 \<and> (y mod 100 \<noteq> 0 \<or> y mod 400 = 0))"

definition days_in_month :: "int \<Rightarrow> int \<Rightarrow> int" where
  "days_in_month y m =
     (if m = 2 then (if is_leap y then 29 else 28)
      else if m = 4 \<or> m = 6 \<or> m = 9 \<or> m = 11 then 30 else 31)"

text \<open>
  \<^verbatim>\<open>date(year, month, day)\<close>: the constructor checks the year (1..9999), then the month,
  then the day against the length of the month, and raises \<^verbatim>\<open>ValueError\<close> with the text
  given here (\<open>Inl\<close>). Both handlers only call it with components that already passed
  their range checks.
\<close>

definition date_new :: "int \<Rightarrow> int \<Rightarrow> int \<Rightarrow> string + pydate" where
  "date_new y m d =
     (if y < 1 \<or> 9999 < y then Inl (''year '' @ str_int y @ '' is out of range'')
      else if m < 1 \<or> 12 < m then Inl ''month must be in 1..12''
      else if d < 1 \<or> days_in_month y m < d then Inl ''day is out of range for month''
      else Inr (Date y m d))"

text \<open>\<^verbatim>\<open>str(d)\<close> of a date, which is \<^verbatim>\<open>d.isoformat()\<close>: \<^verbatim>\<open>YYYY-MM-DD\<close>.\<close>

definition isoformat :: "pydate \<Rightarrow> string" where
  "isoformat dt =
     zfill 4 (str_int (d_year dt)) @ ''-'' @ zfill 2 (str_int (d_month dt)) @ ''-''
       @ zfill 2 (str_int (d_day dt))"

section \<open>The connection manager (app/core/database.py)\<close>

datatype level = INFO | ERROR

text \<open>
  What the database server does with one statement, as the driver reports it:
  \<^item> \<open>ConnectFails m\<close>: \<^verbatim>\<open>pymysql.connect\<close> raises, with text \<open>m\<close>;
  \<^item> \<open>ExecuteFails m r\<close>: the connection opens, \<^verbatim>\<open>cursor.execute\<close> raises with text \<open>m\<close>,
    and the \<^verbatim>\<open>rollback()\<close> that follows raises with text \<open>r'\<close> when \<open>r = Some r'\<close>;
  \<^item> \<open>Rows rs\<close>: the connection opens and \<^verbatim>\<open>fetchall()\<close> returns \<open>rs\<close>.
  A server maps the statement and its parameters to that outcome.
\<close>

datatype outcome = ConnectFails string | ExecuteFails string "string option" | Rows "row list"

type_synonym server = "string \<Rightarrow> row \<Rightarrow> outcome"

text \<open>
  The state the code acts on: the \<^verbatim>\<open>_connection\<close> attribute of \<^verbatim>\<open>DatabaseConnection\<close>
  (a connection handle or \<^verbatim>\<open>None\<close>), the handles open at the server, the next unused
  handle, the statements handed to \<^verbatim>\<open>cursor.execute\<close>, and the log records written.
\<close>

record db =
  connection :: "nat option"
  opened :: "nat list"
  fresh :: nat
  issued :: "(string \<times> row) list"
  log :: "(level \<times> string) list"

definition logger :: "level \<Rightarrow> string \<Rightarrow> db \<Rightarrow> db" where
  "logger lv msg s = s\<lparr>log := log s @ [(lv, msg)]\<rparr>"

definition connect :: "outcome \<Rightarrow> db \<Rightarrow> (exn + nat) \<times> db" where
  "connect oc s =
     (case oc of
        ConnectFails m \<Rightarrow>
          (Inl (DbError m), logger ERROR (''Failed to connect to database: '' @ m) s)
      | _ \<Rightarrow>
          (Inr (fresh s),
           logger INFO ''Database connection established''
             (s\<lparr>connection := Some (fresh s), opened := fresh s # opened s,
                fresh := Suc (fresh s)\<rparr>)))"

text \<open>
  \<^verbatim>\<open>close()\<close> of the driver raises only on a connection that was closed before, and
  \<open>disconnect\<close> forgets the connection right after closing it, so it does not raise here.
\<close>

definition disconnect :: "db \<Rightarrow> db" where
  "disconnect s =
     (case connection s of
        None \<Rightarrow> s
      | Some c \<Rightarrow>
          logger INFO ''Database connection closed''
            (s\<lparr>opened := removeAll c (opened s), connection := None\<rparr>))"

definition rollback :: "outcome \<Rightarrow> exn + unit" where
  "rollback oc = (case oc of ExecuteFails m (Some r) \<Rightarrow> Inl (DbError r) | _ \<Rightarrow> Inr ())"

text \<open>
  The context manager \<^verbatim>\<open>get_connection\<close> around the body of a \<^verbatim>\<open>with\<close> block: \<open>body\<close>
  gets the connection. The \<^verbatim>\<open>except\<close> clause rolls back when a connection was made, logs
  and re-raises; the \<^verbatim>\<open>finally\<close> clause disconnects on every path.
\<close>

definition get_connection ::
    "outcome \<Rightarrow> (nat \<Rightarrow> db \<Rightarrow> (exn + 'a) \<times> db) \<Rightarrow> db \<Rightarrow> (exn + 'a) \<times> db" where
  "get_connection oc body s =
     (case connect oc s of
        (Inl e, s1) \<Rightarrow>
          (Inl e, disconnect (logger ERROR (''Database operation failed: '' @ str_exn e) s1))
      | (Inr c, s1) \<Rightarrow>
          (case body c s1 of
             (Inr v, s2) \<Rightarrow> (Inr v, disconnect s2)
           | (Inl e, s2) \<Rightarrow>
               (case rollback oc of
                  Inl e' \<Rightarrow> (Inl e', disconnect s2)
                | Inr _ \<Rightarrow>
                    (Inl e,
                     disconnect
                       (logger ERROR (''Database operation failed: '' @ str_exn e) s2)))))"

text \<open>
  \<^verbatim>\<open>cursor.execute(query, params or {})\<close> followed by \<^verbatim>\<open>cursor.fetchall()\<close>, the body of
  the \<^verbatim>\<open>with\<close> block. It runs on an open connection only, so its last case is never
  reached: \<open>get_connection\<close> does not enter the body when the connect fails.
\<close>

definition cursor_execute ::
    "outcome \<Rightarrow> string \<Rightarrow> row \<Rightarrow> nat \<Rightarrow> db \<Rightarrow> (exn + row list) \<times> db" where
  "cursor_execute oc query params c s =
     (let s1 = s\<lparr>issued := issued s @ [(query, params)]\<rparr>
      in case oc of
           Rows rs \<Rightarrow> (Inr rs, s1)
         | ExecuteFails m r \<Rightarrow> (Inl (DbError m), s1)
         | ConnectFails m \<Rightarrow> (Inl (DbError m), s1))"

text \<open>\<^verbatim>\<open>params or {}\<close>.\<close>

definition or_empty :: "row option \<Rightarrow> row" where
  "or_empty params = (case params of None \<Rightarrow> [] | Some p \<Rightarrow> p)"

definition execute_query ::
    "server \<Rightarrow> string \<Rightarrow> row option \<Rightarrow> db \<Rightarrow> (exn + row list) \<times> db" where
  "execute_query srv query params s =
     (let oc = srv query (or_empty params)
      in get_connection oc (cursor_execute oc query (or_empty params)) s)"

definition execute_single ::
    "server \<Rightarrow> string \<Rightarrow> row option \<Rightarrow> db \<Rightarrow> (exn + row option) \<times> db" where
  "execute_single srv query params s =
     (case execute_query srv query params s of
        (Inl e, s1) \<Rightarrow> (Inl e, s1)
      | (Inr results, s1) \<Rightarrow>
          (Inr (case results of [] \<Rightarrow> None | r # _ \<Rightarrow> Some r), s1))"

section \<open>The data models (app/models/workout.py)\<close>

text \<open>
  The pydantic models. The three models with a \<^verbatim>\<open>name\<close> field get a prefix on their
  field names, and so do the fields of the request, since a record field is a constant
  of its own.
\<close>

record AOSModel =
  aos_name :: string
  aos_description :: "string option"

record PAXModel =
  pax_name :: string
  pax_f3_name :: "string option"

record QICModel =
  qic_name :: string
  qic_f3_name :: "string option"

record WorkoutModel =
  workout_date :: pydate
  qic :: QICModel
  pax :: "PAXModel list"
  aos :: "AOSModel list"
  url_slug :: string

record WorkoutRequest =
  req_year :: int
  req_month :: int
  req_day :: int
  req_url_slug :: string

record WorkoutResponse =
  success :: bool
  message :: "string option"
  data :: "WorkoutModel option"

text \<open>The \<^verbatim>\<open>Field(..., ge=, le=)\<close> constraints of the request, checked before the handler runs.\<close>

definition WorkoutRequest_valid :: "WorkoutRequest \<Rightarrow> bool" where
  "WorkoutRequest_valid r =
     (2000 \<le> req_year r \<and> req_year r \<le> 9999 \<and> 1 \<le> req_month r \<and> req_month r \<le> 12
      \<and> 1 \<le> req_day r \<and> req_day r \<le> 31)"

text \<open>
  Field validation when a model is constructed. A \<^verbatim>\<open>str\<close> field takes a string and
  nothing else; a \<^verbatim>\<open>str | None\<close> field takes a string or \<^verbatim>\<open>None\<close> (which is also what
  \<^verbatim>\<open>row.get\<close> gives for a missing key); a \<^verbatim>\<open>date\<close> field takes a date, rejects \<^verbatim>\<open>None\<close>,
  and hands an integer or a string to the library's conversion, the parameter \<open>lax\<close>.
  \<open>None\<close> is a rejected field.
\<close>

definition str_field :: "cell \<Rightarrow> string option" where
  "str_field c = (case c of CStr v \<Rightarrow> Some v | _ \<Rightarrow> None)"

definition opt_str_field :: "cell option \<Rightarrow> string option option" where
  "opt_str_field c =
     (case c of None \<Rightarrow> Some None | Some CNull \<Rightarrow> Some None | Some (CStr v) \<Rightarrow> Some (Some v)
      | _ \<Rightarrow> None)"

definition date_field :: "(cell \<Rightarrow> pydate option) \<Rightarrow> cell \<Rightarrow> pydate option" where
  "date_field lax c = (case c of CDate d \<Rightarrow> Some d | CNull \<Rightarrow> None | _ \<Rightarrow> lax c)"

definition rejected :: "'a option \<Rightarrow> nat" where
  "rejected v = (case v of None \<Rightarrow> 1 | Some _ \<Rightarrow> 0)"

definition PAXModel_new :: "cell \<Rightarrow> cell option \<Rightarrow> exn + PAXModel" where
  "PAXModel_new name f3_name =
     (case (str_field name, opt_str_field f3_name) of
        (Some n, Some f) \<Rightarrow> Inr \<lparr>pax_name = n, pax_f3_name = f\<rparr>
      | (a, b) \<Rightarrow> Inl (ValidationError (rejected a + rejected b) ''PAXModel''))"

definition AOSModel_new :: "cell \<Rightarrow> cell option \<Rightarrow> exn + AOSModel" where
  "AOSModel_new name description =
     (case (str_field name, opt_str_field description) of
        (Some n, Some f) \<Rightarrow> Inr \<lparr>aos_name = n, aos_description = f\<rparr>
      | (a, b) \<Rightarrow> Inl (ValidationError (rejected a + rejected b) ''AOSModel''))"

definition QICModel_new :: "cell \<Rightarrow> cell option \<Rightarrow> exn + QICModel" where
  "QICModel_new name f3_name =
     (case (str_field name, opt_str_field f3_name) of
        (Some n, Some f) \<Rightarrow> Inr \<lparr>qic_name = n, qic_f3_name = f\<rparr>
      | (a, b) \<Rightarrow> Inl (ValidationError (rejected a + rejected b) ''QICModel''))"

definition WorkoutModel_new ::
    "(cell \<Rightarrow> pydate option) \<Rightarrow> cell \<Rightarrow> QICModel \<Rightarrow> PAXModel list \<Rightarrow> AOSModel list \<Rightarrow> cell
       \<Rightarrow> exn + WorkoutModel" where
  "WorkoutModel_new lax wdate q ps as slug =
     (case (date_field lax wdate, str_field slug) of
        (Some d, Some u) \<Rightarrow>
          Inr \<lparr>workout_date = d, qic = q, pax = ps, aos = as, url_slug = u\<rparr>
      | (a, b) \<Rightarrow> Inl (ValidationError (rejected a + rejected b) ''WorkoutModel''))"

section \<open>The lookup service (app/services/workout_service.py)\<close>

text \<open>
  The four statements. The line breaks and indentation of the triple-quoted literals
  are written as single spaces.
\<close>

definition workout_query :: string where
  "workout_query =
     ''SELECT w.workout_date, w.url_slug, w.qic_name, w.qic_f3_name FROM workouts w WHERE w.workout_date = %(workout_date)s AND w.url_slug = %(url_slug)s LIMIT 1''"

definition pax_query :: string where
  "pax_query =
     ''SELECT p.pax_name, p.f3_name FROM workout_pax wp JOIN pax p ON wp.pax_id = p.id JOIN workouts w ON wp.workout_id = w.id WHERE w.workout_date = %(workout_date)s AND w.url_slug = %(url_slug)s''"

definition aos_query :: string where
  "aos_query =
     ''SELECT a.aos_name, a.description FROM workout_aos wa JOIN aos a ON wa.aos_id = a.id JOIN workouts w ON wa.workout_id = w.id WHERE w.workout_date = %(workout_date)s AND w.url_slug = %(url_slug)s''"

definition health_query :: string where
  "health_query = ''SELECT 1 as status''"

definition query_params :: "pydate \<Rightarrow> string \<Rightarrow> row" where
  "query_params wdate slug = [(''workout_date'', CDate wdate), (''url_slug'', CStr slug)]"

text \<open>\<^verbatim>\<open>row[k]\<close>: the value, or \<^verbatim>\<open>KeyError\<close>.\<close>

definition getitem :: "row \<Rightarrow> string \<Rightarrow> exn + cell" where
  "getitem r k = (case map_of r k of None \<Rightarrow> Inl (KeyError k) | Some v \<Rightarrow> Inr v)"

text \<open>A list comprehension \<^verbatim>\<open>[f(row) for row in rows]\<close>: the first exception ends it.\<close>

fun comprehension :: "('a \<Rightarrow> exn + 'b) \<Rightarrow> 'a list \<Rightarrow> exn + 'b list" where
  "comprehension f [] = Inr []"
| "comprehension f (x # xs) =
     (case f x of
        Inl e \<Rightarrow> Inl e
      | Inr y \<Rightarrow> (case comprehension f xs of Inl e \<Rightarrow> Inl e | Inr ys \<Rightarrow> Inr (y # ys)))"

definition pax_of_row :: "row \<Rightarrow> exn + PAXModel" where
  "pax_of_row r =
     (case getitem r ''pax_name'' of
        Inl e \<Rightarrow> Inl e
      | Inr n \<Rightarrow> PAXModel_new n (map_of r ''f3_name''))"

definition aos_of_row :: "row \<Rightarrow> exn + AOSModel" where
  "aos_of_row r =
     (case getitem r ''aos_name'' of
        Inl e \<Rightarrow> Inl e
      | Inr n \<Rightarrow> AOSModel_new n (map_of r ''description''))"

definition get_pax_for_workout ::
    "server \<Rightarrow> pydate \<Rightarrow> string \<Rightarrow> db \<Rightarrow> (exn + PAXModel list) \<times> db" where
  "get_pax_for_workout srv wdate slug s =
     (case execute_query srv pax_query (Some (query_params wdate slug)) s of
        (Inl e, s1) \<Rightarrow> (Inl e, s1)
      | (Inr pax_data, s1) \<Rightarrow> (comprehension pax_of_row pax_data, s1))"

definition get_aos_for_workout ::
    "server \<Rightarrow> pydate \<Rightarrow> string \<Rightarrow> db \<Rightarrow> (exn + AOSModel list) \<times> db" where
  "get_aos_for_workout srv wdate slug s =
     (case execute_query srv aos_query (Some (query_params wdate slug)) s of
        (Inl e, s1) \<Rightarrow> (Inl e, s1)
      | (Inr aos_data, s1) \<Rightarrow> (comprehension aos_of_row aos_data, s1))"

text \<open>
  The end of \<^verbatim>\<open>get_workout_by_date_and_slug\<close>: the two models built from the header row,
  the keyword arguments read from left to right.
\<close>

definition assemble ::
    "(cell \<Rightarrow> pydate option) \<Rightarrow> row \<Rightarrow> PAXModel list \<Rightarrow> AOSModel list \<Rightarrow> exn + WorkoutModel" where
  "assemble lax workout_data pax_list aos_list =
     (case getitem workout_data ''qic_name'' of
        Inl e \<Rightarrow> Inl e
      | Inr qn \<Rightarrow>
          (case QICModel_new qn (map_of workout_data ''qic_f3_name'') of
             Inl e \<Rightarrow> Inl e
           | Inr q \<Rightarrow>
               (case getitem workout_data ''workout_date'' of
                  Inl e \<Rightarrow> Inl e
                | Inr wd \<Rightarrow>
                    (case getitem workout_data ''url_slug'' of
                       Inl e \<Rightarrow> Inl e
                     | Inr us \<Rightarrow> WorkoutModel_new lax wd q pax_list aos_list us))))"

text \<open>The \<^verbatim>\<open>try\<close> block of \<^verbatim>\<open>get_workout_by_date_and_slug\<close>.\<close>

definition get_workout_try ::
    "(cell \<Rightarrow> pydate option) \<Rightarrow> server \<Rightarrow> pydate \<Rightarrow> string \<Rightarrow> db
       \<Rightarrow> (exn + WorkoutModel option) \<times> db" where
  "get_workout_try lax srv wdate slug s =
     (case execute_single srv workout_query (Some (query_params wdate slug)) s of
        (Inl e, s1) \<Rightarrow> (Inl e, s1)
      | (Inr workout_data, s1) \<Rightarrow>
          (if workout_data = None \<or> workout_data = Some [] then
             (Inr None,
              logger INFO
                (''No workout found for date '' @ isoformat wdate @ '' and slug '' @ slug) s1)
           else
             (case get_pax_for_workout srv wdate slug s1 of
                (Inl e, s2) \<Rightarrow> (Inl e, s2)
              | (Inr pax_list, s2) \<Rightarrow>
                  (case get_aos_for_workout srv wdate slug s2 of
                     (Inl e, s3) \<Rightarrow> (Inl e, s3)
                   | (Inr aos_list, s3) \<Rightarrow>
                       (case assemble lax (case workout_data of Some r \<Rightarrow> r | None \<Rightarrow> [])
                               pax_list aos_list of
                          Inl e \<Rightarrow> (Inl e, s3)
                        | Inr workout \<Rightarrow>
                            (Inr (Some workout),
                             logger INFO
                               (''Retrieved workout data for '' @ isoformat wdate @ '' - ''
                                  @ slug) s3))))))"

definition get_workout_by_date_and_slug ::
    "(cell \<Rightarrow> pydate option) \<Rightarrow> server \<Rightarrow> pydate \<Rightarrow> string \<Rightarrow> db
       \<Rightarrow> (exn + WorkoutModel option) \<times> db" where
  "get_workout_by_date_and_slug lax srv wdate slug s =
     (case get_workout_try lax srv wdate slug s of
        (Inl e, s1) \<Rightarrow>
          (Inl e, logger ERROR (''Error retrieving workout data: '' @ str_exn e) s1)
      | (Inr w, s1) \<Rightarrow> (Inr w, s1))"

text \<open>
  \<^verbatim>\<open>WorkoutService.health_check\<close>: \<^verbatim>\<open>result is not None and result.get("status") == 1\<close>,
  and \<^verbatim>\<open>False\<close> on any exception.
\<close>

definition health_check :: "server \<Rightarrow> db \<Rightarrow> (exn + bool) \<times> db" where
  "health_check srv s =
     (case execute_single srv health_query None s of
        (Inl e, s1) \<Rightarrow> (Inr False, logger ERROR (''Health check failed: '' @ str_exn e) s1)
      | (Inr result, s1) \<Rightarrow>
          (Inr (case result of None \<Rightarrow> False | Some r \<Rightarrow> map_of r ''status'' = Some (CInt 1)),
           s1))"

section \<open>The HTTP handlers (app/api/workouts.py)\<close>

text \<open>
  A handler either raises \<^verbatim>\<open>HTTPException(status_code, detail)\<close> or returns its value,
  which the framework sends with status 200.
\<close>

datatype 'a result = HTTPException nat string | Return 'a

fun status_code :: "'a result \<Rightarrow> nat" where
  "status_code (HTTPException c d) = c"
| "status_code (Return v) = 200"

text \<open>
  The handlers get the service as a dependency; \<open>lookup\<close> is the type of its method
  \<^verbatim>\<open>get_workout_by_date_and_slug\<close> and \<open>checker\<close> that of its \<^verbatim>\<open>health_check\<close>.
\<close>

type_synonym lookup = "pydate \<Rightarrow> string \<Rightarrow> db \<Rightarrow> (exn + WorkoutModel option) \<times> db"

type_synonym checker = "db \<Rightarrow> (exn + bool) \<times> db"

definition api_health_check :: "checker \<Rightarrow> db \<Rightarrow> (string \<times> string) list result \<times> db" where
  "api_health_check svc s =
     (case svc s of
        (Inr db_healthy, s1) \<Rightarrow>
          (Return
             [(''status'', if db_healthy then ''healthy'' else ''unhealthy''),
              (''service'', ''f3rva-workout-service''),
              (''database'', if db_healthy then ''connected'' else ''disconnected'')],
           s1)
      | (Inl e, s1) \<Rightarrow>
          (HTTPException 503 ''Service unavailable'',
           logger ERROR (''Health check failed: '' @ str_exn e) s1))"

definition get_workout ::
    "lookup \<Rightarrow> int \<Rightarrow> int \<Rightarrow> int \<Rightarrow> string \<Rightarrow> db \<Rightarrow> WorkoutResponse result \<times> db" where
  "get_workout svc year month day slug s =
     (if \<not> (2000 \<le> year \<and> year \<le> 9999) then
        (HTTPException 400 ''Year must be between 2000 and 9999'', s)
      else if \<not> (1 \<le> month \<and> month \<le> 12) then
        (HTTPException 400 ''Month must be between 1 and 12'', s)
      else if \<not> (1 \<le> day \<and> day \<le> 31) then
        (HTTPException 400 ''Day must be between 1 and 31'', s)
      else
        (case date_new year month day of
           Inl e \<Rightarrow> (HTTPException 400 (''Invalid date: '' @ e), s)
         | Inr wdate \<Rightarrow>
             (case svc wdate slug s of
                (Inr None, s1) \<Rightarrow>
                  (Return
                     \<lparr>success = False,
                      message =
                        Some (''No workout found for '' @ isoformat wdate @ '' with slug ''
                                @ [CHR 0x27] @ slug @ [CHR 0x27]),
                      data = None\<rparr>,
                   s1)
              | (Inr (Some workout), s1) \<Rightarrow>
                  (Return
                     \<lparr>success = True, message = Some ''Workout data retrieved successfully'',
                      data = Some workout\<rparr>,
                   s1)
              | (Inl e, s1) \<Rightarrow>
                  (HTTPException 500 ''Internal server error'',
                   logger ERROR (''Error retrieving workout: '' @ str_exn e) s1))))"

definition search_workout ::
    "lookup \<Rightarrow> WorkoutRequest \<Rightarrow> db \<Rightarrow> WorkoutResponse result \<times> db" where
  "search_workout svc request s =
     (case date_new (req_year request) (req_month request) (req_day request) of
        Inl e \<Rightarrow> (HTTPException 400 (''Invalid date: '' @ e), s)
      | Inr wdate \<Rightarrow>
          (case svc wdate (req_url_slug request) s of
             (Inr None, s1) \<Rightarrow>
               (Return
                  \<lparr>success = False,
                   message =
                     Some (''No workout found for '' @ isoformat wdate @ '' with slug ''
                             @ [CHR 0x27] @ req_url_slug request @ [CHR 0x27]),
                   data = None\<rparr>,
                s1)
           | (Inr (Some workout), s1) \<Rightarrow>
               (Return
                  \<lparr>success = True, message = Some ''Workout data retrieved successfully'',
                   data = Some workout\<rparr>,
                s1)
           | (Inl e, s1) \<Rightarrow>
               (HTTPException 500 ''Internal server error'',
                logger ERROR (''Error retrieving workout: '' @ str_exn e) s1)))"

section \<open>Auxiliary notions for the properties\<close>

text \<open>
  The text of the error \<open>execute_query\<close> raises under an outcome of the server: the
  driver's error, or the error of the rollback when that fails too; \<open>None\<close> when rows
  come back.
\<close>

definition gateway_error :: "outcome \<Rightarrow> string option" where
  "gateway_error oc =
     (case oc of
        ConnectFails m \<Rightarrow> Some m
      | ExecuteFails m None \<Rightarrow> Some m
      | ExecuteFails m (Some r) \<Rightarrow> Some r
      | Rows rs \<Rightarrow> None)"

text \<open>
  The original cause of a failure of the gateway: the text of the error with which the
  connect or the execute raises; \<open>None\<close> when rows come back.
\<close>

definition original_cause :: "outcome \<Rightarrow> string option" where
  "original_cause oc =
     (case oc of
        ConnectFails m \<Rightarrow> Some m
      | ExecuteFails m r \<Rightarrow> Some m
      | Rows rs \<Rightarrow> None)"

text \<open>The state of a connection manager just constructed, and a few servers.\<close>

definition idle :: db where
  "idle = \<lparr>connection = None, opened = [], fresh = 0, issued = [], log = []\<rparr>"

definition refusing :: server where
  "refusing q p = ConnectFails ''connection refused''"

definition dropping :: server where
  "dropping q p = ExecuteFails ''lost connection'' (Some ''not connected'')"

definition vacant :: server where
  "vacant q p = Rows []"

definition header_row :: row where
  "header_row =
     [(''workout_date'', CDate (Date 2024 1 15)), (''url_slug'', CStr ''test-workout''),
      (''qic_name'', CStr ''Ripken''), (''qic_f3_name'', CNull)]"

definition stocked :: server where
  "stocked q p =
     (if q = workout_query then Rows [header_row]
      else if q = pax_query then
        Rows [[(''pax_name'', CStr ''Donatello''), (''f3_name'', CNull)],
              [(''pax_name'', CStr ''Leonardo'')]]
      else if q = aos_query then Rows []
      else Rows [[(''status'', CInt 1)]])"

text \<open>A server that answers the header query and the participant query, and fails the third.\<close>

definition failing_late :: server where
  "failing_late q p =
     (if q = workout_query then Rows [header_row]
      else if q = pax_query then Rows []
      else ExecuteFails ''timeout'' None)"

definition failing_second :: server where
  "failing_second q p =
     (if q = workout_query then Rows [header_row] else ConnectFails ''too many connections'')"

definition no_lax :: "cell \<Rightarrow> pydate option" where
  "no_lax c = None"

text \<open>A lookup that always raises, and one that always finds nothing.\<close>

definition raising :: lookup where
  "raising d u s = (Inl (DbError ''boom''), s)"

definition absent :: lookup where
  "absent d u s = (Inr None, s)"

section \<open>The connection manager: what an operation leaves behind\<close>

lemmas gateway_defs = execute_query_def get_connection_def connect_def disconnect_def
  rollback_def cursor_execute_def logger_def

lemma execute_query_connection:
  "connection (snd (execute_query srv q p s)) = None"
  by (simp add: gateway_defs Let_def split: outcome.splits option.splits)

lemma execute_query_fst:
  "fst (execute_query srv q p s) =
     (case gateway_error (srv q (or_empty p)) of
        Some m \<Rightarrow> Inl (DbError m)
      | None \<Rightarrow> Inr (case srv q (or_empty p) of Rows rs \<Rightarrow> rs | _ \<Rightarrow> []))"
  by (simp add: gateway_defs gateway_error_def Let_def split: outcome.splits option.splits)

lemma execute_query_issued:
  "issued (snd (execute_query srv q p s)) =
     (case srv q (or_empty p) of
        ConnectFails m \<Rightarrow> issued s
      | _ \<Rightarrow> issued s @ [(q, or_empty p)])"
  by (simp add: gateway_defs Let_def split: outcome.splits option.splits)

lemma execute_query_fresh:
  "fresh (snd (execute_query srv q p s)) =
     (case srv q (or_empty p) of
        ConnectFails m \<Rightarrow> fresh s
      | _ \<Rightarrow> Suc (fresh s))"
  by (simp add: gateway_defs Let_def split: outcome.splits option.splits)

lemma execute_query_opened:
  "opened (snd (execute_query srv q p s)) =
     (case srv q (or_empty p) of
        ConnectFails m \<Rightarrow>
          (case connection s of None \<Rightarrow> opened s | Some c \<Rightarrow> removeAll c (opened s))
      | _ \<Rightarrow> removeAll (fresh s) (opened s))"
  by (simp add: gateway_defs Let_def split: outcome.splits option.splits)

lemma execute_single_snd: "snd (execute_single srv q p s) = snd (execute_query srv q p s)"
  by (simp add: execute_single_def split: prod.splits sum.splits)

lemma execute_single_fst:
  "fst (execute_single srv q p s) =
     (case fst (execute_query srv q p s) of
        Inl e \<Rightarrow> Inl e
      | Inr rs \<Rightarrow> Inr (case rs of [] \<Rightarrow> None | r # _ \<Rightarrow> Some r))"
  by (simp add: execute_single_def split: prod.splits sum.splits)

text \<open>
  Claim C9. After \<open>execute_query\<close> and after \<open>execute_single\<close>, from any state and
  whatever the server does (rows, an error while executing, a failed rollback, a failed
  connect), the stored connection is absent and no handle is open that was not open
  before. From a state with no stored connection the open handles are exactly those of
  before. An operation whose connect succeeds takes one new handle: the counter of
  handles goes up by one.
\<close>

theorem gateway_releases_connection:
  "connection (snd (execute_query srv q p s)) = None
   \<and> connection (snd (execute_single srv q p s)) = None
   \<and> set (opened (snd (execute_query srv q p s))) \<subseteq> set (opened s)
   \<and> set (opened (snd (execute_single srv q p s))) \<subseteq> set (opened s)
   \<and> (connection s = None \<and> fresh s \<notin> set (opened s) \<longrightarrow>
        opened (snd (execute_query srv q p s)) = opened s
        \<and> opened (snd (execute_single srv q p s)) = opened s)
   \<and> fresh (snd (execute_query srv q p s)) =
       (case srv q (or_empty p) of ConnectFails m \<Rightarrow> fresh s | _ \<Rightarrow> Suc (fresh s))"
  by (auto simp: execute_single_snd execute_query_connection execute_query_opened
        execute_query_fresh split: outcome.splits option.splits)

theorem gateway_releases_connection_witness:
  "connection idle = None \<and> fresh idle \<notin> set (opened idle)
   \<and> connection (snd (execute_query refusing health_query None idle)) = None
   \<and> opened (snd (execute_query refusing health_query None idle)) = []
   \<and> connection (snd (execute_query dropping health_query None idle)) = None
   \<and> opened (snd (execute_query dropping health_query None idle)) = []
   \<and> opened (snd (execute_single dropping health_query None idle)) = []
   \<and> fresh (snd (execute_query dropping health_query None idle)) = 1"
  using gateway_releases_connection [of dropping health_query None idle]
    gateway_releases_connection [of refusing health_query None idle]
  by (simp add: idle_def dropping_def)

section \<open>The lookup service\<close>

lemma get_workout_header_absent:
  "fst (execute_single srv workout_query (Some (query_params d u)) s) = Inr None \<Longrightarrow>
     get_workout_try lax srv d u s =
       (Inr None,
        logger INFO (''No workout found for date '' @ isoformat d @ '' and slug '' @ u)
          (snd (execute_single srv workout_query (Some (query_params d u)) s)))"
  by (cases "execute_single srv workout_query (Some (query_params d u)) s")
     (simp add: get_workout_try_def)

text \<open>
  Claim C1. When the header query returns no row, \<open>get_workout_by_date_and_slug\<close>
  returns \<^verbatim>\<open>None\<close>; the header statement is the only statement handed to the server
  and one connection was taken, so the participant and activity-segment queries were
  not issued.
\<close>

theorem no_header_no_workout:
  assumes "srv workout_query (query_params d u) = Rows []"
  shows "fst (get_workout_by_date_and_slug lax srv d u s) = Inr None
    \<and> issued (snd (get_workout_by_date_and_slug lax srv d u s)) =
        issued s @ [(workout_query, query_params d u)]
    \<and> fresh (snd (get_workout_by_date_and_slug lax srv d u s)) = Suc (fresh s)"
proof -
  have "fst (execute_single srv workout_query (Some (query_params d u)) s) = Inr None"
    using assms
    by (simp add: execute_single_fst execute_query_fst gateway_error_def or_empty_def)
  then have "get_workout_by_date_and_slug lax srv d u s =
       (Inr None,
        logger INFO (''No workout found for date '' @ isoformat d @ '' and slug '' @ u)
          (snd (execute_query srv workout_query (Some (query_params d u)) s)))"
    by (simp add: get_workout_by_date_and_slug_def get_workout_header_absent
          execute_single_snd)
  then show ?thesis
    using assms
    by (simp add: logger_def execute_query_issued execute_query_fresh or_empty_def)
qed

theorem no_header_no_workout_witness:
  "vacant workout_query (query_params (Date 2024 1 15) ''nonexistent'') = Rows []
   \<and> fst (get_workout_by_date_and_slug no_lax vacant (Date 2024 1 15) ''nonexistent'' idle)
       = Inr None
   \<and> issued
        (snd (get_workout_by_date_and_slug no_lax vacant (Date 2024 1 15) ''nonexistent'' idle))
       = [(workout_query, query_params (Date 2024 1 15) ''nonexistent'')]"
  using no_header_no_workout [of vacant "Date 2024 1 15" "''nonexistent''" no_lax idle]
  by (simp add: vacant_def idle_def)

text \<open>
  Claim C5. \<open>health_check\<close> never raises: it returns \<^verbatim>\<open>True\<close> or \<^verbatim>\<open>False\<close>. It returns
  \<^verbatim>\<open>True\<close> exactly when the round-trip query \<open>execute_single\<close> hands back a row (it hands
  back one row or \<^verbatim>\<open>None\<close>) whose \<^verbatim>\<open>status\<close> is the integer 1. A gateway error, an empty
  result, and a single row with another status all give \<^verbatim>\<open>False\<close>.
\<close>

theorem health_check_true_iff:
  "(fst (health_check srv s) = Inr True \<longleftrightarrow>
      (\<exists>r. fst (execute_single srv health_query None s) = Inr (Some r)
           \<and> map_of r ''status'' = Some (CInt 1)))
   \<and> (fst (health_check srv s) = Inr True \<or> fst (health_check srv s) = Inr False)
   \<and> (gateway_error (srv health_query []) \<noteq> None \<longrightarrow> fst (health_check srv s) = Inr False)
   \<and> (srv health_query [] = Rows [] \<longrightarrow> fst (health_check srv s) = Inr False)
   \<and> (\<forall>r. srv health_query [] = Rows [r] \<longrightarrow>
        fst (health_check srv s) = Inr (map_of r ''status'' = Some (CInt 1)))"
  by (cases "execute_single srv health_query None s")
     (auto simp: health_check_def execute_single_def gateway_defs gateway_error_def
        or_empty_def Let_def
        split: sum.splits option.splits list.splits outcome.splits prod.splits)

theorem health_check_true_iff_witness:
  "gateway_error (refusing health_query []) \<noteq> None
   \<and> fst (health_check refusing idle) = Inr False
   \<and> vacant health_query [] = Rows []
   \<and> fst (health_check vacant idle) = Inr False
   \<and> stocked health_query [] = Rows [[(''status'', CInt 1)]]
   \<and> fst (health_check stocked idle) = Inr True"
proof -
  have a: "gateway_error (refusing health_query []) \<noteq> None"
    by (simp add: refusing_def gateway_error_def)
  have b: "vacant health_query [] = Rows []"
    by (simp add: vacant_def)
  have c: "stocked health_query [] = Rows [[(''status'', CInt 1)]]"
    by (simp add: stocked_def health_query_def workout_query_def pax_query_def aos_query_def)
  show ?thesis
    using a b c health_check_true_iff [of refusing idle] health_check_true_iff [of vacant idle]
      health_check_true_iff [of stocked idle]
    by simp
qed

section \<open>The HTTP handlers\<close>

text \<open>
  Claim C10. When the health check of the service returns a boolean, the handler
  returns its payload with status 200, for \<^verbatim>\<open>True\<close> and for \<^verbatim>\<open>False\<close> alike; in the payload
  \<^verbatim>\<open>status\<close> is \<^verbatim>\<open>healthy\<close> exactly when \<^verbatim>\<open>database\<close> is \<^verbatim>\<open>connected\<close>, and both exactly when
  the boolean is \<^verbatim>\<open>True\<close>.
\<close>

theorem health_payload_agrees:
  assumes "fst (svc s) = Inr b"
  shows "\<exists>p. fst (api_health_check svc s) = Return p
    \<and> status_code (fst (api_health_check svc s)) = 200
    \<and> (map_of p ''status'' = Some ''healthy'' \<longleftrightarrow> map_of p ''database'' = Some ''connected'')
    \<and> (map_of p ''status'' = Some ''healthy'' \<longleftrightarrow> b)
    \<and> (map_of p ''status'' = Some ''unhealthy'' \<longleftrightarrow> \<not> b)
    \<and> (map_of p ''database'' = Some ''disconnected'' \<longleftrightarrow> \<not> b)"
  using assms by (cases "svc s") (auto simp: api_health_check_def)

theorem health_payload_agrees_witness:
  "fst (health_check vacant idle) = Inr False
   \<and> (\<exists>p. fst (api_health_check (health_check vacant) idle) = Return p
        \<and> status_code (fst (api_health_check (health_check vacant) idle)) = 200
        \<and> map_of p ''status'' = Some ''unhealthy''
        \<and> map_of p ''database'' = Some ''disconnected'')"
proof -
  have h: "fst (health_check vacant idle) = Inr False"
    by (simp add: health_check_def execute_single_def gateway_defs or_empty_def vacant_def
          Let_def)
  from health_payload_agrees [of "health_check vacant" idle False] h show ?thesis
    by auto
qed

text \<open>
  Claim C3. A year outside 2000..9999 gives 400 with the message about the year; with
  the year in range, a month outside 1..12 gives 400 with the message about the month;
  with both in range, a day outside 1..31 gives 400 with the message about the day. The
  state comes back as it was, whatever the lookup service would do: it is not called.
\<close>

theorem path_bounds_checked_in_order:
  "(\<not> (2000 \<le> year \<and> year \<le> 9999) \<longrightarrow>
      get_workout svc year month day slug s =
        (HTTPException 400 ''Year must be between 2000 and 9999'', s))
   \<and> (2000 \<le> year \<and> year \<le> 9999 \<and> \<not> (1 \<le> month \<and> month \<le> 12) \<longrightarrow>
      get_workout svc year month day slug s =
        (HTTPException 400 ''Month must be between 1 and 12'', s))
   \<and> (2000 \<le> year \<and> year \<le> 9999 \<and> 1 \<le> month \<and> month \<le> 12
        \<and> \<not> (1 \<le> day \<and> day \<le> 31) \<longrightarrow>
      get_workout svc year month day slug s =
        (HTTPException 400 ''Day must be between 1 and 31'', s))"
  by (simp add: get_workout_def)

theorem path_bounds_checked_in_order_witness:
  "get_workout raising 1999 13 32 ''test-workout'' idle =
     (HTTPException 400 ''Year must be between 2000 and 9999'', idle)
   \<and> get_workout raising 2024 13 32 ''test-workout'' idle =
     (HTTPException 400 ''Month must be between 1 and 12'', idle)
   \<and> get_workout raising 2024 1 32 ''test-workout'' idle =
     (HTTPException 400 ''Day must be between 1 and 31'', idle)"
  using path_bounds_checked_in_order [of 1999 raising 13 32 "''test-workout''" idle]
    path_bounds_checked_in_order [of 2024 raising 13 32 "''test-workout''" idle]
    path_bounds_checked_in_order [of 2024 raising 1 32 "''test-workout''" idle]
  by simp

text \<open>
  Claim C8. For a year, month and day inside the field bounds with the day beyond the
  length of the month, the date constructor raises and both handlers answer 400 with
  \<^verbatim>\<open>Invalid date: \<close> followed by the constructor's text. The state comes back as it was,
  whatever the lookup service would do: it is not called.
\<close>

theorem invalid_calendar_date_rejected:
  assumes "2000 \<le> year" and "year \<le> 9999" and "1 \<le> month" and "month \<le> 12"
    and "1 \<le> day" and "day \<le> 31" and "days_in_month year month < day"
  shows "\<exists>e. date_new year month day = Inl e
    \<and> get_workout svc year month day slug s = (HTTPException 400 (''Invalid date: '' @ e), s)
    \<and> search_workout svc
         \<lparr>req_year = year, req_month = month, req_day = day, req_url_slug = slug\<rparr> s
        = (HTTPException 400 (''Invalid date: '' @ e), s)"
  using assms by (simp add: get_workout_def search_workout_def date_new_def)

theorem invalid_calendar_date_rejected_witness:
  "days_in_month 2024 2 < 30
   \<and> get_workout raising 2024 2 30 ''test-workout'' idle =
       (HTTPException 400 ''Invalid date: day is out of range for month'', idle)
   \<and> search_workout raising
        \<lparr>req_year = 2024, req_month = 2, req_day = 30, req_url_slug = ''test-workout''\<rparr> idle =
       (HTTPException 400 ''Invalid date: day is out of range for month'', idle)"
proof -
  have d: "days_in_month 2024 2 < 30"
    by (simp add: days_in_month_def is_leap_def)
  have e: "date_new 2024 2 30 = Inl ''day is out of range for month''"
    by (simp add: date_new_def days_in_month_def is_leap_def)
  from invalid_calendar_date_rejected
         [of 2024 2 30 raising "''test-workout''" idle, OF _ _ _ _ _ _ d] d e
  show ?thesis by simp
qed

text \<open>
  Claim C7. On a request that satisfies the bounds of the envelope, the search handler
  gives what the path handler gives on the same year, month, day and slug, with the
  same lookup service and from the same state: the same response and the same state
  after.
\<close>

theorem search_agrees_with_path:
  assumes "WorkoutRequest_valid request"
  shows "search_workout svc request s =
    get_workout svc (req_year request) (req_month request) (req_day request)
      (req_url_slug request) s"
  using assms by (simp add: WorkoutRequest_valid_def search_workout_def get_workout_def)

theorem search_agrees_with_path_witness:
  "WorkoutRequest_valid
     \<lparr>req_year = 2024, req_month = 1, req_day = 15, req_url_slug = ''test-workout''\<rparr>
   \<and> search_workout absent
        \<lparr>req_year = 2024, req_month = 1, req_day = 15, req_url_slug = ''test-workout''\<rparr> idle =
       get_workout absent 2024 1 15 ''test-workout'' idle
   \<and> status_code (fst (get_workout absent 2024 1 15 ''test-workout'' idle)) = 200"
proof -
  have v: "WorkoutRequest_valid
     \<lparr>req_year = 2024, req_month = 1, req_day = 15, req_url_slug = ''test-workout''\<rparr>"
    by (simp add: WorkoutRequest_valid_def)
  have r: "status_code (fst (get_workout absent 2024 1 15 ''test-workout'' idle)) = 200"
    by (simp add: get_workout_def date_new_def days_in_month_def absent_def)
  from search_agrees_with_path [OF v, of absent idle] v r show ?thesis
    by simp
qed

lemma get_workout_returns:
  assumes "fst (get_workout svc year month day slug s) = Return r"
  shows "(\<exists>wd s1. svc wd slug s = (Inr None, s1) \<and>
            r = \<lparr>success = False,
                 message = Some (''No workout found for '' @ isoformat wd @ '' with slug ''
                                   @ [CHR 0x27] @ slug @ [CHR 0x27]),
                 data = None\<rparr>)
       \<or> (\<exists>wd s1 w. svc wd slug s = (Inr (Some w), s1) \<and>
            r = \<lparr>success = True, message = Some ''Workout data retrieved successfully'',
                 data = Some w\<rparr>)"
proof -
  from assms obtain wd where
    ret: "fst (case svc wd slug s of
                (Inr None, s1) \<Rightarrow>
                  (Return
                     \<lparr>success = False,
                      message =
                        Some (''No workout found for '' @ isoformat wd @ '' with slug ''
                                @ [CHR 0x27] @ slug @ [CHR 0x27]),
                      data = None\<rparr>,
                   s1)
              | (Inr (Some workout), s1) \<Rightarrow>
                  (Return
                     \<lparr>success = True, message = Some ''Workout data retrieved successfully'',
                      data = Some workout\<rparr>,
                   s1)
              | (Inl e, s1) \<Rightarrow>
                  (HTTPException 500 ''Internal server error'',
                   logger ERROR (''Error retrieving workout: '' @ str_exn e) s1)) = Return r"
    unfolding get_workout_def by (simp split: if_splits sum.splits)
  obtain x s1 where sv: "svc wd slug s = (x, s1)"
    by (cases "svc wd slug s")
  show ?thesis
  proof (cases x)
    case (Inl e)
    with ret sv show ?thesis by simp
  next
    case (Inr found)
    show ?thesis
    proof (cases found)
      case None
      with ret sv Inr have "r = \<lparr>success = False,
                 message = Some (''No workout found for '' @ isoformat wd @ '' with slug ''
                                   @ [CHR 0x27] @ slug @ [CHR 0x27]),
                 data = None\<rparr>"
        by simp
      with sv Inr None show ?thesis by blast
    next
      case (Some w)
      with ret sv Inr have "r = \<lparr>success = True,
                 message = Some ''Workout data retrieved successfully'', data = Some w\<rparr>"
        by simp
      with sv Inr Some show ?thesis by blast
    qed
  qed
qed

lemma search_workout_returns:
  assumes "fst (search_workout svc request s) = Return r"
  shows "(\<exists>wd s1. svc wd (req_url_slug request) s = (Inr None, s1) \<and>
            r = \<lparr>success = False,
                 message = Some (''No workout found for '' @ isoformat wd @ '' with slug ''
                                   @ [CHR 0x27] @ req_url_slug request @ [CHR 0x27]),
                 data = None\<rparr>)
       \<or> (\<exists>wd s1 w. svc wd (req_url_slug request) s = (Inr (Some w), s1) \<and>
            r = \<lparr>success = True, message = Some ''Workout data retrieved successfully'',
                 data = Some w\<rparr>)"
proof -
  from assms obtain wd where
    ret: "fst (case svc wd (req_url_slug request) s of
                (Inr None, s1) \<Rightarrow>
                  (Return
                     \<lparr>success = False,
                      message =
                        Some (''No workout found for '' @ isoformat wd @ '' with slug ''
                                @ [CHR 0x27] @ req_url_slug request @ [CHR 0x27]),
                      data = None\<rparr>,
                   s1)
              | (Inr (Some workout), s1) \<Rightarrow>
                  (Return
                     \<lparr>success = True, message = Some ''Workout data retrieved successfully'',
                      data = Some workout\<rparr>,
                   s1)
              | (Inl e, s1) \<Rightarrow>
                  (HTTPException 500 ''Internal server error'',
                   logger ERROR (''Error retrieving workout: '' @ str_exn e) s1)) = Return r"
    unfolding search_workout_def by (simp split: sum.splits)
  obtain x s1 where sv: "svc wd (req_url_slug request) s = (x, s1)"
    by (cases "svc wd (req_url_slug request) s")
  show ?thesis
  proof (cases x)
    case (Inl e)
    with ret sv show ?thesis by simp
  next
    case (Inr found)
    show ?thesis
    proof (cases found)
      case None
      with ret sv Inr have "r = \<lparr>success = False,
                 message = Some (''No workout found for '' @ isoformat wd @ '' with slug ''
                                   @ [CHR 0x27] @ req_url_slug request @ [CHR 0x27]),
                 data = None\<rparr>"
        by simp
      with sv Inr None show ?thesis by blast
    next
      case (Some w)
      with ret sv Inr have "r = \<lparr>success = True,
                 message = Some ''Workout data retrieved successfully'', data = Some w\<rparr>"
        by simp
      with sv Inr Some show ?thesis by blast
    qed
  qed
qed

text \<open>
  Claim C2. Every \<^verbatim>\<open>WorkoutResponse\<close> that the path handler or the search handler
  returns, whatever the lookup service does, has data when \<^verbatim>\<open>success\<close> is true, and has no
  data and a message that is not the empty string when \<^verbatim>\<open>success\<close> is false.
\<close>

theorem envelope_invariant:
  "(fst (get_workout svc year month day slug s) = Return r \<longrightarrow>
      (success r \<longrightarrow> data r \<noteq> None)
      \<and> (\<not> success r \<longrightarrow> data r = None \<and> (\<exists>m. message r = Some m \<and> m \<noteq> [])))
   \<and> (fst (search_workout svc request s) = Return r \<longrightarrow>
      (success r \<longrightarrow> data r \<noteq> None)
      \<and> (\<not> success r \<longrightarrow> data r = None \<and> (\<exists>m. message r = Some m \<and> m \<noteq> [])))"
proof (intro conjI impI)
  assume a: "fst (get_workout svc year month day slug s) = Return r"
  { assume "success r"
    with get_workout_returns [OF a] show "data r \<noteq> None" by auto }
  { assume "\<not> success r"
    with get_workout_returns [OF a] show "data r = None" by auto }
  { assume "\<not> success r"
    with get_workout_returns [OF a] show "\<exists>m. message r = Some m \<and> m \<noteq> []" by auto }
next
  assume a: "fst (search_workout svc request s) = Return r"
  { assume "success r"
    with search_workout_returns [OF a] show "data r \<noteq> None" by auto }
  { assume "\<not> success r"
    with search_workout_returns [OF a] show "data r = None" by auto }
  { assume "\<not> success r"
    with search_workout_returns [OF a] show "\<exists>m. message r = Some m \<and> m \<noteq> []" by auto }
qed

theorem envelope_invariant_witness:
  "\<exists>r. fst (get_workout absent 2024 1 15 ''nonexistent'' idle) = Return r
     \<and> fst (search_workout absent
          \<lparr>req_year = 2024, req_month = 1, req_day = 15, req_url_slug = ''nonexistent''\<rparr> idle)
         = Return r
     \<and> \<not> success r \<and> data r = None \<and> (\<exists>m. message r = Some m \<and> m \<noteq> [])"
proof -
  define r where "r = \<lparr>success = False,
      message = Some (''No workout found for '' @ isoformat (Date 2024 1 15) @ '' with slug ''
                        @ [CHR 0x27] @ ''nonexistent'' @ [CHR 0x27]),
      data = None\<rparr>"
  have g: "fst (get_workout absent 2024 1 15 ''nonexistent'' idle) = Return r"
    by (simp add: r_def get_workout_def date_new_def days_in_month_def absent_def)
  have p: "fst (search_workout absent
          \<lparr>req_year = 2024, req_month = 1, req_day = 15, req_url_slug = ''nonexistent''\<rparr> idle)
         = Return r"
    by (simp add: r_def search_workout_def date_new_def days_in_month_def absent_def)
  have n: "\<not> success r"
    by (simp add: r_def)
  from envelope_invariant [of absent 2024 1 15 "''nonexistent''" idle r] g p n
  show ?thesis by blast
qed

section \<open>The sequences of the aggregate record\<close>











section \<open>Storage failures\<close>

lemma execute_query_raises:
  assumes "gateway_error (srv q (or_empty p)) = Some m"
  shows "\<exists>s1. execute_query srv q p s = (Inl (DbError m), s1)"
  using assms execute_query_fst [of srv q p s]
  by (cases "execute_query srv q p s") simp

lemma execute_query_rows:
  assumes "srv q (or_empty p) = Rows rs"
  shows "\<exists>s1. execute_query srv q p s = (Inr rs, s1)"
  using assms execute_query_fst [of srv q p s]
  by (cases "execute_query srv q p s") (simp add: gateway_error_def)

lemma service_raises_logged:
  assumes "fst (get_workout_try lax srv d u s) = Inl e"
  shows "\<exists>s1. get_workout_by_date_and_slug lax srv d u s = (Inl e, s1)
    \<and> (ERROR, ''Error retrieving workout data: '' @ str_exn e) \<in> set (log s1)"
  using assms
  by (cases "get_workout_try lax srv d u s")
     (simp add: get_workout_by_date_and_slug_def logger_def)

lemma try_header_fails:
  assumes "gateway_error (srv workout_query (query_params d u)) = Some m"
  shows "fst (get_workout_try lax srv d u s) = Inl (DbError m)"
proof -
  from assms have "gateway_error (srv workout_query (or_empty (Some (query_params d u)))) = Some m"
    by (simp add: or_empty_def)
  from execute_query_raises
         [where srv = srv and q = workout_query and p = "Some (query_params d u)" and s = s,
          OF this]
  obtain s1
    where "execute_query srv workout_query (Some (query_params d u)) s = (Inl (DbError m), s1)"
    by blast
  then have "execute_single srv workout_query (Some (query_params d u)) s
      = (Inl (DbError m), s1)"
    by (simp add: execute_single_def)
  then show ?thesis
    by (simp add: get_workout_try_def)
qed

lemma header_found:
  assumes "srv workout_query (query_params d u) = Rows (r # rs)"
  shows "\<exists>s1. execute_single srv workout_query (Some (query_params d u)) s = (Inr (Some r), s1)"
proof -
  from assms have "srv workout_query (or_empty (Some (query_params d u))) = Rows (r # rs)"
    by (simp add: or_empty_def)
  from execute_query_rows
         [where srv = srv and q = workout_query and p = "Some (query_params d u)" and s = s,
          OF this]
  obtain s1
    where "execute_query srv workout_query (Some (query_params d u)) s = (Inr (r # rs), s1)"
    by blast
  then have "execute_single srv workout_query (Some (query_params d u)) s = (Inr (Some r), s1)"
    by (simp add: execute_single_def)
  then show ?thesis by blast
qed

lemma try_pax_fails:
  assumes "srv workout_query (query_params d u) = Rows (r # rs)" and "r \<noteq> []"
    and "gateway_error (srv pax_query (query_params d u)) = Some m"
  shows "fst (get_workout_try lax srv d u s) = Inl (DbError m)"
proof -
  from header_found [where srv = srv and s = s, OF assms(1)] obtain s1
    where h: "execute_single srv workout_query (Some (query_params d u)) s = (Inr (Some r), s1)"
    by blast
  from assms(3) have "gateway_error (srv pax_query (or_empty (Some (query_params d u)))) = Some m"
    by (simp add: or_empty_def)
  from execute_query_raises
         [where srv = srv and q = pax_query and p = "Some (query_params d u)" and s = s1,
          OF this]
  obtain s2
    where "execute_query srv pax_query (Some (query_params d u)) s1 = (Inl (DbError m), s2)"
    by blast
  then have "get_pax_for_workout srv d u s1 = (Inl (DbError m), s2)"
    by (simp add: get_pax_for_workout_def)
  with h assms(2) show ?thesis
    by (simp add: get_workout_try_def)
qed

lemma try_aos_fails:
  assumes "srv workout_query (query_params d u) = Rows (r # rs)" and "r \<noteq> []"
    and "srv pax_query (query_params d u) = Rows prs"
    and "comprehension pax_of_row prs = Inr pl"
    and "gateway_error (srv aos_query (query_params d u)) = Some m"
  shows "fst (get_workout_try lax srv d u s) = Inl (DbError m)"
proof -
  from header_found [where srv = srv and s = s, OF assms(1)] obtain s1
    where h: "execute_single srv workout_query (Some (query_params d u)) s = (Inr (Some r), s1)"
    by blast
  from assms(3) have "srv pax_query (or_empty (Some (query_params d u))) = Rows prs"
    by (simp add: or_empty_def)
  from execute_query_rows
         [where srv = srv and q = pax_query and p = "Some (query_params d u)" and s = s1,
          OF this]
  obtain s2
    where "execute_query srv pax_query (Some (query_params d u)) s1 = (Inr prs, s2)"
    by blast
  with assms(4) have p: "get_pax_for_workout srv d u s1 = (Inr pl, s2)"
    by (simp add: get_pax_for_workout_def)
  from assms(5) have "gateway_error (srv aos_query (or_empty (Some (query_params d u)))) = Some m"
    by (simp add: or_empty_def)
  from execute_query_raises
         [where srv = srv and q = aos_query and p = "Some (query_params d u)" and s = s2,
          OF this]
  obtain s3
    where "execute_query srv aos_query (Some (query_params d u)) s2 = (Inl (DbError m), s3)"
    by blast
  then have "get_aos_for_workout srv d u s2 = (Inl (DbError m), s3)"
    by (simp add: get_aos_for_workout_def)
  with h p assms(2) show ?thesis
    by (simp add: get_workout_try_def)
qed

lemma get_workout_raised:
  assumes "date_new year month day = Inr wd" and "2000 \<le> year"
    and "svc wd slug s = (Inl e, s1)"
  shows "get_workout svc year month day slug s =
    (HTTPException 500 ''Internal server error'',
     logger ERROR (''Error retrieving workout: '' @ str_exn e) s1)"
proof -
  from assms(1) have "year \<le> 9999" and "1 \<le> month" and "month \<le> 12" and "1 \<le> day"
    and "day \<le> days_in_month year month"
    by (simp_all add: date_new_def split: if_splits)
  moreover have "days_in_month year month \<le> 31"
    by (simp add: days_in_month_def)
  ultimately show ?thesis
    using assms by (simp add: get_workout_def)
qed

lemma search_workout_raised:
  assumes "date_new (req_year request) (req_month request) (req_day request) = Inr wd"
    and "svc wd (req_url_slug request) s = (Inl e, s1)"
  shows "search_workout svc request s =
    (HTTPException 500 ''Internal server error'',
     logger ERROR (''Error retrieving workout: '' @ str_exn e) s1)"
  using assms by (simp add: search_workout_def)

lemma lookup_raised_500:
  assumes "date_new year month day = Inr wd" and "2000 \<le> year"
    and "fst (get_workout_try lax srv wd slug s) = Inl (DbError m)"
  shows "\<exists>s'.
      get_workout (get_workout_by_date_and_slug lax srv) year month day slug s =
        (HTTPException 500 ''Internal server error'', s')
    \<and> search_workout (get_workout_by_date_and_slug lax srv)
        \<lparr>req_year = year, req_month = month, req_day = day, req_url_slug = slug\<rparr> s =
        (HTTPException 500 ''Internal server error'', s')
    \<and> (ERROR, ''Error retrieving workout: '' @ m) \<in> set (log s')"
proof -
  from service_raises_logged [OF assms(3)] obtain s1
    where r: "get_workout_by_date_and_slug lax srv wd slug s = (Inl (DbError m), s1)"
    by blast
  let ?s = "logger ERROR (''Error retrieving workout: '' @ str_exn (DbError m)) s1"
  have "get_workout (get_workout_by_date_and_slug lax srv) year month day slug s =
        (HTTPException 500 ''Internal server error'', ?s)"
    by (rule get_workout_raised
          [where svc = "get_workout_by_date_and_slug lax srv", OF assms(1) assms(2) r])
  moreover have "search_workout (get_workout_by_date_and_slug lax srv)
        \<lparr>req_year = year, req_month = month, req_day = day, req_url_slug = slug\<rparr> s =
        (HTTPException 500 ''Internal server error'', ?s)"
    using assms(1) r
    by (intro search_workout_raised
          [where svc = "get_workout_by_date_and_slug lax srv" and wd = wd and e = "DbError m"
             and ?s1.0 = s1])
       simp_all
  moreover have "(ERROR, ''Error retrieving workout: '' @ m) \<in> set (log ?s)"
    by (simp add: logger_def)
  ultimately show ?thesis by blast
qed

lemma health_check_gateway_fails:
  assumes "gateway_error (srv health_query []) = Some m"
  shows "\<exists>s1. health_check srv s = (Inr False, s1)
    \<and> (ERROR, ''Health check failed: '' @ m) \<in> set (log s1)"
proof -
  from assms have "gateway_error (srv health_query (or_empty None)) = Some m"
    by (simp add: or_empty_def)
  from execute_query_raises
         [where srv = srv and q = health_query and p = None and s = s, OF this]
  obtain s1
    where "execute_query srv health_query None s = (Inl (DbError m), s1)"
    by blast
  then have "execute_single srv health_query None s = (Inl (DbError m), s1)"
    by (simp add: execute_single_def)
  then show ?thesis
    by (simp add: health_check_def logger_def)
qed

lemma health_check_never_raises: "fst (health_check srv s) \<noteq> Inl e"
  by (cases "execute_single srv health_query None s")
     (simp add: health_check_def split: sum.splits)

lemma original_cause_raised:
  assumes "original_cause oc = Some m"
  shows "\<exists>m'. gateway_error oc = Some m' \<and> (rollback oc = Inr () \<longrightarrow> m' = m)"
  using assms
  by (cases oc) (auto simp: original_cause_def gateway_error_def rollback_def split: option.splits)

text \<open>
  When the rollback raises too, its error takes the place of the error of the execute
  before \<open>get_connection\<close> has logged that one: for the server \<open>dropping\<close> the log of a
  lookup holds the text of the rollback's error and not the text of the execute's error.
\<close>

lemma rollback_error_replaces_cause:
  "log (snd (get_workout (get_workout_by_date_and_slug no_lax dropping) 2024 1 15
               ''test-workout'' idle)) =
     [(INFO, ''Database connection established''), (INFO, ''Database connection closed''),
      (ERROR, ''Error retrieving workout data: not connected''),
      (ERROR, ''Error retrieving workout: not connected'')]"
  by (simp add: get_workout_def date_new_def days_in_month_def
        get_workout_by_date_and_slug_def get_workout_try_def execute_single_def gateway_defs
        or_empty_def dropping_def idle_def Let_def)

text \<open>
  Claim C4, as the code has it. Let the gateway fail on a query: the connect raises or
  the execute raises, with error text \<open>m\<close>, the original cause.

  In a lookup, whether the failing query is the header query, the participant query or
  the activity-segment query, both lookup handlers raise 500 with the fixed detail
  \<^verbatim>\<open>Internal server error\<close>. When the rollback after the failure does not raise, the log
  holds the original cause.

  In the health check, the service catches the error and returns \<^verbatim>\<open>False\<close>, so the handler
  returns 200 with the payload \<^verbatim>\<open>unhealthy\<close> / \<^verbatim>\<open>disconnected\<close>; when the rollback does not
  raise, the log holds the original cause. The handler raises 503
  \<^verbatim>\<open>Service unavailable\<close> exactly when the health check it is given raises, which the
  health check of the service never does.
\<close>

theorem storage_failure_responses:
  "(date_new year month day = Inr wd \<and> 2000 \<le> year \<and> original_cause oc = Some m
      \<and> (srv workout_query (query_params wd slug) = oc
         \<or> (\<exists>r rs. srv workout_query (query_params wd slug) = Rows (r # rs) \<and> r \<noteq> []
               \<and> srv pax_query (query_params wd slug) = oc)
         \<or> (\<exists>r rs prs pl. srv workout_query (query_params wd slug) = Rows (r # rs) \<and> r \<noteq> []
               \<and> srv pax_query (query_params wd slug) = Rows prs
               \<and> comprehension pax_of_row prs = Inr pl
               \<and> srv aos_query (query_params wd slug) = oc))
    \<longrightarrow> (\<exists>s'.
          get_workout (get_workout_by_date_and_slug lax srv) year month day slug s =
            (HTTPException 500 ''Internal server error'', s')
        \<and> search_workout (get_workout_by_date_and_slug lax srv)
            \<lparr>req_year = year, req_month = month, req_day = day, req_url_slug = slug\<rparr> s =
            (HTTPException 500 ''Internal server error'', s')
        \<and> (rollback oc = Inr ()
             \<longrightarrow> (ERROR, ''Error retrieving workout: '' @ m) \<in> set (log s'))))
   \<and> (original_cause (srv health_query []) = Some m
    \<longrightarrow> (\<exists>s'.
          api_health_check (health_check srv) s =
            (Return [(''status'', ''unhealthy''), (''service'', ''f3rva-workout-service''),
                     (''database'', ''disconnected'')], s')
        \<and> status_code (fst (api_health_check (health_check srv) s)) = 200
        \<and> (rollback (srv health_query []) = Inr ()
             \<longrightarrow> (ERROR, ''Health check failed: '' @ m) \<in> set (log s'))))
   \<and> (\<forall>svc. (\<exists>e. fst (svc s) = Inl e)
          \<longleftrightarrow> fst (api_health_check svc s) = HTTPException 503 ''Service unavailable'')
   \<and> (\<forall>svc. (\<exists>e. fst (svc s) = Inl e)
          \<longleftrightarrow> status_code (fst (api_health_check svc s)) = 503)
   \<and> (\<forall>e. fst (health_check srv s) \<noteq> Inl e)"
proof (intro conjI impI allI)
  assume a: "date_new year month day = Inr wd \<and> 2000 \<le> year \<and> original_cause oc = Some m
      \<and> (srv workout_query (query_params wd slug) = oc
         \<or> (\<exists>r rs. srv workout_query (query_params wd slug) = Rows (r # rs) \<and> r \<noteq> []
               \<and> srv pax_query (query_params wd slug) = oc)
         \<or> (\<exists>r rs prs pl. srv workout_query (query_params wd slug) = Rows (r # rs) \<and> r \<noteq> []
               \<and> srv pax_query (query_params wd slug) = Rows prs
               \<and> comprehension pax_of_row prs = Inr pl
               \<and> srv aos_query (query_params wd slug) = oc))"
  then have d: "date_new year month day = Inr wd" and y: "2000 \<le> year"
    and c: "original_cause oc = Some m"
    by simp_all
  from original_cause_raised [OF c] obtain m'
    where g: "gateway_error oc = Some m'" and e: "rollback oc = Inr () \<longrightarrow> m' = m"
    by blast
  from a g have "fst (get_workout_try lax srv wd slug s) = Inl (DbError m')"
    using try_header_fails [where srv = srv and d = wd and u = slug and m = m']
      try_pax_fails [where srv = srv and d = wd and u = slug and m = m']
      try_aos_fails [where srv = srv and d = wd and u = slug and m = m']
    by blast
  from lookup_raised_500 [where srv = srv, OF d y this] e
  show "\<exists>s'.
          get_workout (get_workout_by_date_and_slug lax srv) year month day slug s =
            (HTTPException 500 ''Internal server error'', s')
        \<and> search_workout (get_workout_by_date_and_slug lax srv)
            \<lparr>req_year = year, req_month = month, req_day = day, req_url_slug = slug\<rparr> s =
            (HTTPException 500 ''Internal server error'', s')
        \<and> (rollback oc = Inr ()
             \<longrightarrow> (ERROR, ''Error retrieving workout: '' @ m) \<in> set (log s'))"
    by blast
next
  assume "original_cause (srv health_query []) = Some m"
  from original_cause_raised [OF this] obtain m'
    where g: "gateway_error (srv health_query []) = Some m'"
      and e: "rollback (srv health_query []) = Inr () \<longrightarrow> m' = m"
    by blast
  from health_check_gateway_fails [where srv = srv and s = s, OF g] obtain s1
    where "health_check srv s = (Inr False, s1)"
      and "(ERROR, ''Health check failed: '' @ m') \<in> set (log s1)"
    by blast
  with e show "\<exists>s'.
          api_health_check (health_check srv) s =
            (Return [(''status'', ''unhealthy''), (''service'', ''f3rva-workout-service''),
                     (''database'', ''disconnected'')], s')
        \<and> status_code (fst (api_health_check (health_check srv) s)) = 200
        \<and> (rollback (srv health_query []) = Inr ()
             \<longrightarrow> (ERROR, ''Health check failed: '' @ m) \<in> set (log s'))"
    by (auto simp: api_health_check_def)
next
  fix svc :: checker
  show "(\<exists>e. fst (svc s) = Inl e)
          \<longleftrightarrow> fst (api_health_check svc s) = HTTPException 503 ''Service unavailable''"
    by (cases "svc s") (auto simp: api_health_check_def split: sum.splits)
next
  fix svc :: checker
  show "(\<exists>e. fst (svc s) = Inl e) \<longleftrightarrow> status_code (fst (api_health_check svc s)) = 503"
    by (cases "svc s") (auto simp: api_health_check_def split: sum.splits)
next
  fix e
  show "fst (health_check srv s) \<noteq> Inl e"
    by (rule health_check_never_raises)
qed

theorem storage_failure_responses_witness:
  "date_new 2024 1 15 = Inr (Date 2024 1 15)
   \<and> refusing workout_query (query_params (Date 2024 1 15) ''test-workout'')
       = ConnectFails ''connection refused''
   \<and> rollback (ConnectFails ''connection refused'') = Inr ()
   \<and> (\<exists>s'. get_workout (get_workout_by_date_and_slug no_lax refusing) 2024 1 15
               ''test-workout'' idle = (HTTPException 500 ''Internal server error'', s')
            \<and> (ERROR, ''Error retrieving workout: '' @ ''connection refused'') \<in> set (log s'))
   \<and> failing_second pax_query (query_params (Date 2024 1 15) ''test-workout'')
       = ConnectFails ''too many connections''
   \<and> (\<exists>s'. get_workout (get_workout_by_date_and_slug no_lax failing_second) 2024 1 15
               ''test-workout'' idle = (HTTPException 500 ''Internal server error'', s')
            \<and> (ERROR, ''Error retrieving workout: '' @ ''too many connections'') \<in> set (log s'))
   \<and> failing_late aos_query (query_params (Date 2024 1 15) ''test-workout'')
       = ExecuteFails ''timeout'' None
   \<and> rollback (ExecuteFails ''timeout'' None) = Inr ()
   \<and> (\<exists>s'. search_workout (get_workout_by_date_and_slug no_lax failing_late)
               \<lparr>req_year = 2024, req_month = 1, req_day = 15, req_url_slug = ''test-workout''\<rparr>
               idle = (HTTPException 500 ''Internal server error'', s')
            \<and> (ERROR, ''Error retrieving workout: '' @ ''timeout'') \<in> set (log s'))
   \<and> dropping workout_query (query_params (Date 2024 1 15) ''test-workout'')
       = ExecuteFails ''lost connection'' (Some ''not connected'')
   \<and> (\<exists>s'. get_workout (get_workout_by_date_and_slug no_lax dropping) 2024 1 15
               ''test-workout'' idle = (HTTPException 500 ''Internal server error'', s'))
   \<and> refusing health_query [] = ConnectFails ''connection refused''
   \<and> (\<exists>s'. api_health_check (health_check refusing) idle =
              (Return [(''status'', ''unhealthy''), (''service'', ''f3rva-workout-service''),
                       (''database'', ''disconnected'')], s')
            \<and> (ERROR, ''Health check failed: '' @ ''connection refused'') \<in> set (log s'))
   \<and> status_code (fst (api_health_check (health_check refusing) idle)) = 200"
proof -
  have d: "date_new 2024 1 15 = Inr (Date 2024 1 15)"
    by (simp add: date_new_def days_in_month_def)
  have y: "(2000::int) \<le> 2024"
    by simp
  have o1: "original_cause (ConnectFails ''connection refused'') = Some ''connection refused''"
    and o2: "original_cause (ConnectFails ''too many connections'') = Some ''too many connections''"
    and o3: "original_cause (ExecuteFails ''timeout'' None) = Some ''timeout''"
    and o4: "original_cause (ExecuteFails ''lost connection'' (Some ''not connected''))
              = Some ''lost connection''"
    by (simp_all add: original_cause_def)
  have b1: "rollback (ConnectFails ''connection refused'') = Inr ()"
    and b2: "rollback (ConnectFails ''too many connections'') = Inr ()"
    and b3: "rollback (ExecuteFails ''timeout'' None) = Inr ()"
    by (simp_all add: rollback_def)
  have g1: "refusing workout_query (query_params (Date 2024 1 15) ''test-workout'')
       = ConnectFails ''connection refused''"
    by (simp add: refusing_def)
  have h2: "failing_second workout_query (query_params (Date 2024 1 15) ''test-workout'')
       = Rows (header_row # [])"
    by (simp add: failing_second_def)
  have n: "header_row \<noteq> []"
    by (simp add: header_row_def)
  have g2: "failing_second pax_query (query_params (Date 2024 1 15) ''test-workout'')
       = ConnectFails ''too many connections''"
    by (simp add: failing_second_def workout_query_def pax_query_def)
  have h3: "failing_late workout_query (query_params (Date 2024 1 15) ''test-workout'')
       = Rows (header_row # [])"
    by (simp add: failing_late_def)
  have p3: "failing_late pax_query (query_params (Date 2024 1 15) ''test-workout'') = Rows []"
    by (simp add: failing_late_def workout_query_def pax_query_def)
  have c3: "comprehension pax_of_row [] = Inr []"
    by simp
  have g3: "failing_late aos_query (query_params (Date 2024 1 15) ''test-workout'')
       = ExecuteFails ''timeout'' None"
    by (simp add: failing_late_def workout_query_def pax_query_def aos_query_def)
  have g4: "dropping workout_query (query_params (Date 2024 1 15) ''test-workout'')
       = ExecuteFails ''lost connection'' (Some ''not connected'')"
    by (simp add: dropping_def)
  have g5: "refusing health_query [] = ConnectFails ''connection refused''"
    by (simp add: refusing_def)
  note t1 = storage_failure_responses
    [where srv = refusing and year = 2024 and month = 1 and day = 15
       and wd = "Date 2024 1 15" and slug = "''test-workout''"
       and oc = "ConnectFails ''connection refused''"
       and m = "''connection refused''" and lax = no_lax and s = idle]
  note t2 = storage_failure_responses
    [where srv = failing_second and year = 2024 and month = 1 and day = 15
       and wd = "Date 2024 1 15" and slug = "''test-workout''"
       and oc = "ConnectFails ''too many connections''"
       and m = "''too many connections''" and lax = no_lax and s = idle]
  note t3 = storage_failure_responses
    [where srv = failing_late and year = 2024 and month = 1 and day = 15
       and wd = "Date 2024 1 15" and slug = "''test-workout''"
       and oc = "ExecuteFails ''timeout'' None"
       and m = "''timeout''" and lax = no_lax and s = idle]
  note t4 = storage_failure_responses
    [where srv = dropping and year = 2024 and month = 1 and day = 15
       and wd = "Date 2024 1 15" and slug = "''test-workout''"
       and oc = "ExecuteFails ''lost connection'' (Some ''not connected'')"
       and m = "''lost connection''" and lax = no_lax and s = idle]
  from t1 d y o1 b1 g1
  have r1: "\<exists>s'. get_workout (get_workout_by_date_and_slug no_lax refusing) 2024 1 15
               ''test-workout'' idle = (HTTPException 500 ''Internal server error'', s')
            \<and> (ERROR, ''Error retrieving workout: '' @ ''connection refused'') \<in> set (log s')"
    by blast
  from t2 d y o2 b2 h2 n g2
  have r2: "\<exists>s'. get_workout (get_workout_by_date_and_slug no_lax failing_second) 2024 1 15
               ''test-workout'' idle = (HTTPException 500 ''Internal server error'', s')
            \<and> (ERROR, ''Error retrieving workout: '' @ ''too many connections'') \<in> set (log s')"
    by blast
  from t3 d y o3 b3 h3 n p3 c3 g3
  have r3: "\<exists>s'. search_workout (get_workout_by_date_and_slug no_lax failing_late)
               \<lparr>req_year = 2024, req_month = 1, req_day = 15, req_url_slug = ''test-workout''\<rparr>
               idle = (HTTPException 500 ''Internal server error'', s')
            \<and> (ERROR, ''Error retrieving workout: '' @ ''timeout'') \<in> set (log s')"
    by blast
  from t4 d y o4 g4
  have r4: "\<exists>s'. get_workout (get_workout_by_date_and_slug no_lax dropping) 2024 1 15
               ''test-workout'' idle = (HTTPException 500 ''Internal server error'', s')"
    by blast
  from o1 g5 have o5: "original_cause (refusing health_query []) = Some ''connection refused''"
    by simp
  from b1 g5 have b5: "rollback (refusing health_query []) = Inr ()"
    by simp
  from t1 o5 b5
  have r5: "\<exists>s'. api_health_check (health_check refusing) idle =
              (Return [(''status'', ''unhealthy''), (''service'', ''f3rva-workout-service''),
                       (''database'', ''disconnected'')], s')
            \<and> (ERROR, ''Health check failed: '' @ ''connection refused'') \<in> set (log s')"
    by blast
  from t1 o5
  have r6: "status_code (fst (api_health_check (health_check refusing) idle)) = 200"
    by blast
  from d g1 b1 r1 g2 r2 g3 b3 r3 g4 r4 g5 r5 r6 show ?thesis
    by blast
qed

text \<open>
  Claim C4 as it is written fails for the health endpoint: with a server that refuses
  the connection, the gateway raises, and the handler answers 200 with the payload
  \<^verbatim>\<open>unhealthy\<close> / \<^verbatim>\<open>disconnected\<close>, not 503.
\<close>

theorem health_gateway_failure_is_not_503:
  "gateway_error (refusing health_query []) = Some ''connection refused''
   \<and> fst (execute_single refusing health_query None idle) = Inl (DbError ''connection refused'')
   \<and> fst (api_health_check (health_check refusing) idle) =
       Return [(''status'', ''unhealthy''), (''service'', ''f3rva-workout-service''),
               (''database'', ''disconnected'')]
   \<and> status_code (fst (api_health_check (health_check refusing) idle)) = 200
   \<and> fst (api_health_check (health_check refusing) idle)
       \<noteq> HTTPException 503 ''Service unavailable''"
  by (simp add: api_health_check_def health_check_def execute_single_def gateway_defs
        or_empty_def refusing_def gateway_error_def Let_def)

end
